theory Spec2Isabelle
  imports Complex_Main
begin

section \<open>Retry helper (src/utils/retry.js)\<close>

text \<open>
  \<^verbatim>\<open>retry(fn, {retries, minTimeout, factor, onRetry})\<close> runs a loop over the counter
  \<open>attempt\<close>. The operation \<open>fn\<close> takes no argument; what it does depends on the world, so
  the model receives the outcome of its n-th invocation as \<open>fn n\<close> (\<open>Inl\<close> a thrown error,
  \<open>Inr\<close> a value). All callers of the repository pass a non-negative integer literal for
  \<open>retries\<close> (2 or 3) or rely on the default 3, so \<open>retries\<close> is a natural number; delays are
  whole milliseconds. The run records how often \<open>fn\<close> was invoked, the arguments handed to
  \<open>onRetry\<close> (whose own failures are swallowed by the source) and the delays waited.
\<close>

datatype ('e, 'a) completion = Returned 'a | Threw 'e | Fell_Through

record ('e, 'a) retry_run =
  completion :: "('e, 'a) completion"
  invocations :: nat
  notified :: "(nat \<times> 'e) list"
  waits :: "nat list"

function retry_loop ::
  "(nat \<Rightarrow> 'e + 'a) \<Rightarrow> nat \<Rightarrow> nat \<Rightarrow> nat \<Rightarrow> nat \<Rightarrow> ('e, 'a) retry_run \<Rightarrow> ('e, 'a) retry_run"
where
  "retry_loop fn rs fac attempt delay run =
     (if attempt \<le> rs then
        (case fn (invocations run) of
           Inr v \<Rightarrow> run\<lparr>completion := Returned v, invocations := invocations run + 1\<rparr>
         | Inl err \<Rightarrow>
             if attempt = rs
             then run\<lparr>completion := Threw err, invocations := invocations run + 1\<rparr>
             else retry_loop fn rs fac (attempt + 1) (delay * fac)
                    (run\<lparr>invocations := invocations run + 1,
                         notified := notified run @ [(attempt + 1, err)],
                         waits := waits run @ [delay]\<rparr>))
      else run\<lparr>completion := Fell_Through\<rparr>)"
  by pat_completeness auto
termination
  by (relation "measure (\<lambda>(fn, rs, fac, attempt, delay, run). Suc rs - attempt)") auto

definition retry :: "(nat \<Rightarrow> 'e + 'a) \<Rightarrow> nat \<Rightarrow> nat \<Rightarrow> nat \<Rightarrow> ('e, 'a) retry_run" where
  "retry fn rs minTimeout fac =
     retry_loop fn rs fac 0 minTimeout
       \<lparr>completion = Fell_Through, invocations = 0, notified = [], waits = []\<rparr>"

section \<open>Exchange gateway (BinanceClient in src/server.js)\<close>

text \<open>
  \<^verbatim>\<open>_signedRequest\<close> wraps one HTTP request in \<^verbatim>\<open>retry\<close> with
  \<^verbatim>\<open>{retries: 3, minTimeout: 300, factor: 2}\<close>. The outcome of the n-th HTTP request is the
  parameter \<open>http n\<close>.
\<close>

definition signedRequest :: "(nat \<Rightarrow> 'e + 'a) \<Rightarrow> ('e, 'a) retry_run" where
  "signedRequest http = retry http 3 300 2"

text \<open>
  Values that occur in an order of the exchange and in the objects built from it. \<open>DateOf v\<close>
  is the object made by \<^verbatim>\<open>new Date(v)\<close>. An object is the list of its keys with their
  values, in insertion order.
\<close>

datatype jv = Undefined | Null | Num int | Str string | DateOf jv

type_synonym jobj = "(string \<times> jv) list"

definition getProp :: "jobj \<Rightarrow> string \<Rightarrow> jv" where
  "getProp obj k = (case map_of obj k of None \<Rightarrow> Undefined | Some v \<Rightarrow> v)"

fun truthy :: "jv \<Rightarrow> bool" where
  "truthy Undefined = False"
| "truthy Null = False"
| "truthy (Num n) = (n \<noteq> 0)"
| "truthy (Str s) = (s \<noteq> [])"
| "truthy (DateOf v) = True"

definition js_or :: "jv \<Rightarrow> jv \<Rightarrow> jv" where
  "js_or a b = (if truthy a then a else b)"

text \<open>
  The body of a successful response: an array whose elements are objects (\<open>Some\<close>) or
  \<^verbatim>\<open>null\<close> (\<open>None\<close>), or a value that has no \<^verbatim>\<open>map\<close> method (for instance the
  object \<^verbatim>\<open>{code, msg}\<close>).
\<close>

datatype payload = Rows "jobj option list" | Not_Array

datatype 'e js_error = TypeError | Request_Error 'e

definition orderView :: "jobj \<Rightarrow> jobj" where
  "orderView order =
     [(''order_id'', getProp order ''orderId''),
      (''client_order_id'', getProp order ''clientOrderId''),
      (''type'', getProp order ''side''),
      (''price'', getProp order ''price''),
      (''quantity'', getProp order ''origQty''),
      (''executed_quantity'', getProp order ''executedQty''),
      (''symbol'', getProp order ''symbol''),
      (''status'', getProp order ''status''),
      (''time_in_force'', getProp order ''timeInForce''),
      (''created_at'', DateOf (getProp order ''time'')),
      (''updated_at'', DateOf (js_or (getProp order ''updateTime'') (getProp order ''time'')))]"

text \<open>\<^verbatim>\<open>orders.map(order => ({...}))\<close>: reading a property of \<^verbatim>\<open>null\<close> throws.\<close>

fun mapOrders :: "jobj option list \<Rightarrow> 'e js_error + jobj list" where
  "mapOrders [] = Inr []"
| "mapOrders (None # rest) = Inl TypeError"
| "mapOrders (Some order # rest) =
     (case mapOrders rest of Inl err \<Rightarrow> Inl err | Inr vs \<Rightarrow> Inr (orderView order # vs))"

text \<open>
  The statements inside \<^verbatim>\<open>try\<close>, then the whole function with its \<^verbatim>\<open>catch\<close>. What
  is thrown there is an error object (the HTTP client's, or a \<^verbatim>\<open>TypeError\<close>), so the
  handler's \<^verbatim>\<open>err.message\<close> is defined and the handler itself does not throw.
\<close>

definition ordersBody :: "(nat \<Rightarrow> 'e + payload) \<Rightarrow> 'e js_error + jobj list" where
  "ordersBody http =
     (case completion (signedRequest http) of
        Threw err \<Rightarrow> Inl (Request_Error err)
      | Fell_Through \<Rightarrow> Inl TypeError
      | Returned Not_Array \<Rightarrow> Inl TypeError
      | Returned (Rows rs) \<Rightarrow> mapOrders rs)"

definition getOpenOrders :: "(nat \<Rightarrow> 'e + payload) \<Rightarrow> 'e js_error + jobj list" where
  "getOpenOrders http = (case ordersBody http of Inl err \<Rightarrow> Inr [] | Inr vs \<Rightarrow> Inr vs)"

definition getAllOrders :: "(nat \<Rightarrow> 'e + payload) \<Rightarrow> 'e js_error + jobj list" where
  "getAllOrders http = (case ordersBody http of Inl err \<Rightarrow> Inr [] | Inr vs \<Rightarrow> Inr vs)"

text \<open>An open order as the exchange reports it.\<close>

definition sampleOrder :: jobj where
  "sampleOrder =
     [(''symbol'', Str ''BTCUSDT''), (''orderId'', Num 7),
      (''clientOrderId'', Str ''1f0c9a2e-1700000000000-B-x1y2z''),
      (''price'', Str ''29990.00000000''), (''origQty'', Str ''0.00001000''),
      (''executedQty'', Str ''0.00000000''), (''status'', Str ''NEW''),
      (''timeInForce'', Str ''GTC''), (''side'', Str ''BUY''),
      (''time'', Num 1700000000000), (''updateTime'', Num 1700000000000)]"

section \<open>Bot manager (src/core/botManager.js)\<close>

text \<open>
  Times are the epoch milliseconds of \<^verbatim>\<open>Date.now()\<close>, integers; a time that is
  \<^verbatim>\<open>null\<close> is \<open>None\<close>. The source tests times with \<^verbatim>\<open>!t\<close> and \<^verbatim>\<open>t || d\<close>, which
  take \<^verbatim>\<open>null\<close> and \<^verbatim>\<open>0\<close> alike for false.
\<close>

definition falsy :: "int option \<Rightarrow> bool" where
  "falsy t = (t = None \<or> t = Some 0)"

definition or_else :: "int option \<Rightarrow> int option \<Rightarrow> int option" where
  "or_else t d = (if falsy t then d else t)"

record stats =
  completedRounds :: int
  realizedPnl :: rat
  lastDurationMs :: int

text \<open>
  \<^verbatim>\<open>bot.config\<close>: the three time fields and, in \<open>settings\<close>, the strategy parameters
  the manager copies and never reads.
\<close>

record 'c config =
  timeCreated :: "int option"
  timeStarted :: "int option"
  timeStopped :: "int option"
  settings :: 'c

text \<open>
  The object \<^verbatim>\<open>{name, strategy, symbol, status, config, stats}\<close> that \<^verbatim>\<open>_persistBot\<close>
  and \<^verbatim>\<open>createBot\<close> hand to \<^verbatim>\<open>saveBotState\<close>, and the bot built from it, which adds the
  id and the in-memory \<^verbatim>\<open>runStartTime\<close>.
\<close>

record 'c snapshot =
  name :: string
  strategy :: string
  symbol :: string
  status :: string
  config :: "'c config"
  stats :: stats

record 'c bot = "'c snapshot" +
  botId :: string
  runStartTime :: "int option"

datatype 'c effect =
    Saved string "'c snapshot"
  | Runner_Start
  | Runner_Stop
  | Subscriptions_Cleared

definition persistBot :: "'c bot \<Rightarrow> 'c snapshot" where
  "persistBot b =
     \<lparr>name = name b, strategy = strategy b, symbol = symbol b, status = status b,
      config = config b, stats = stats b\<rparr>"

definition buildBotInstance :: "string \<Rightarrow> int \<Rightarrow> 'c snapshot \<Rightarrow> 'c bot" where
  "buildBotInstance bid timeNow state =
     (let cfg = config state;
          bot = \<lparr>name = name state, strategy = strategy state, symbol = symbol state,
                 status = (if status state \<noteq> [] then status state else ''stopped''),
                 config = \<lparr>timeCreated = or_else (timeCreated cfg) (Some timeNow),
                           timeStarted = or_else (timeStarted cfg) None,
                           timeStopped = or_else (timeStopped cfg) None,
                           settings = settings cfg\<rparr>,
                 stats = stats state,
                 botId = bid, runStartTime = None\<rparr>
      in if status bot = ''running'' \<and> \<not> falsy (timeStarted (config bot))
            \<and> falsy (timeStopped (config bot))
         then bot\<lparr>runStartTime := timeStarted (config bot)\<rparr>
         else bot)"

definition bot_start :: "int \<Rightarrow> 'c bot \<Rightarrow> 'c bot \<times> 'c effect list" where
  "bot_start now b =
     (if status b = ''running'' then (b, [])
      else
        let b1 = b\<lparr>status := ''running''\<rparr>;
            b2 = (if falsy (timeStarted (config b1))
                  then b1\<lparr>config := (config b1)\<lparr>timeStarted := Some now\<rparr>\<rparr> else b1);
            b3 = b2\<lparr>config := (config b2)\<lparr>timeStopped := None\<rparr>\<rparr>;
            b4 = b3\<lparr>runStartTime := timeStarted (config b3)\<rparr>
        in (b4, [Runner_Start, Saved (botId b4) (persistBot b4)]))"

definition bot_stop :: "int \<Rightarrow> 'c bot \<Rightarrow> 'c bot \<times> 'c effect list" where
  "bot_stop stopTime b =
     (if status b = ''stopped'' then (b, [])
      else
        let b1 = b\<lparr>status := ''stopped''\<rparr>;
            b2 = (if \<not> falsy (runStartTime b1)
                  then b1\<lparr>stats := (stats b1)\<lparr>lastDurationMs := stopTime - the (runStartTime b1)\<rparr>,
                          runStartTime := None\<rparr>
                  else b1);
            b3 = b2\<lparr>config := (config b2)\<lparr>timeStopped := Some stopTime\<rparr>\<rparr>
        in (b3, [Runner_Stop, Subscriptions_Cleared, Saved (botId b3) (persistBot b3)]))"

text \<open>
  \<^verbatim>\<open>bot.updateStats(delta)\<close>. \<^verbatim>\<open>delta.x || 0\<close> is \<open>x\<close> itself for a number \<open>x\<close>.
\<close>

definition addStats :: "int \<Rightarrow> rat \<Rightarrow> stats \<Rightarrow> stats" where
  "addStats rounds pnl st =
     st\<lparr>completedRounds := completedRounds st + (if rounds \<noteq> 0 then rounds else 0),
        realizedPnl := realizedPnl st + (if pnl \<noteq> 0 then pnl else 0)\<rparr>"

definition updateStats :: "int \<Rightarrow> rat \<Rightarrow> 'c bot \<Rightarrow> 'c bot \<times> 'c effect list" where
  "updateStats rounds pnl b =
     (let b1 = b\<lparr>stats := addStats rounds pnl (stats b)\<rparr>
      in (b1, [Saved (botId b1) (persistBot b1)]))"

text \<open>
  \<^verbatim>\<open>createBot\<close>: the id comes from the uuid generator, \<open>timeNow\<close> is read in
  \<^verbatim>\<open>createBot\<close> and \<open>buildTime\<close> again in \<^verbatim>\<open>_buildBotInstance\<close>.
\<close>

definition createBot ::
  "string \<Rightarrow> int \<Rightarrow> int \<Rightarrow> string \<Rightarrow> string \<Rightarrow> string \<Rightarrow> 'c \<Rightarrow> 'c bot \<times> 'c effect list" where
  "createBot bid timeNow buildTime nm strat smb cfg =
     (let initialState =
            \<lparr>name = nm, strategy = strat, symbol = smb, status = ''stopped'',
             config = \<lparr>timeCreated = Some timeNow, timeStarted = None, timeStopped = None,
                       settings = cfg\<rparr>,
             stats = \<lparr>completedRounds = 0, realizedPnl = 0, lastDurationMs = 0\<rparr>\<rparr>
      in (buildBotInstance bid buildTime initialState, [Saved bid initialState]))"

text \<open>
  One round of the loop of \<^verbatim>\<open>loadBotsFromDisk\<close>, for the file of bot \<open>bid\<close>:
  \<open>saved\<close> is what \<^verbatim>\<open>loadBotState\<close> returned (\<open>None\<close> for \<^verbatim>\<open>null\<close>); a round that
  skips the file gives \<open>None\<close>.
\<close>

definition resumeBot ::
  "string \<Rightarrow> int \<Rightarrow> int \<Rightarrow> 'c snapshot option \<Rightarrow> ('c bot \<times> 'c effect list) option" where
  "resumeBot bid buildTime resumeTime saved =
     (case saved of
        None \<Rightarrow> None
      | Some st \<Rightarrow>
          if name st = [] then None
          else
            let l = lastDurationMs (stats st);
                st1 = st\<lparr>stats := (stats st)\<lparr>lastDurationMs := (if l \<noteq> 0 then l else 0)\<rparr>\<rparr>;
                bot = buildBotInstance bid buildTime st1
            in if status st1 = ''running'' then
                 let b1 = bot\<lparr>status := ''running''\<rparr>;
                     b2 = b1\<lparr>config := (config b1)
                            \<lparr>timeStarted := or_else (timeStarted (config b1)) (Some resumeTime)\<rparr>\<rparr>;
                     b3 = b2\<lparr>config := (config b2)\<lparr>timeStopped := None\<rparr>\<rparr>;
                     b4 = b3\<lparr>runStartTime := timeStarted (config b3)\<rparr>
                 in Some (b4, [Runner_Start])
               else Some (bot, []))"

text \<open>The field \<^verbatim>\<open>currentDurationMs\<close> of a bot's entry in \<^verbatim>\<open>listBots()\<close>.\<close>

definition currentDurationMs :: "int \<Rightarrow> 'c bot \<Rightarrow> int" where
  "currentDurationMs now b =
     (if status b = ''running'' \<and> \<not> falsy (runStartTime b) then now - the (runStartTime b)
      else if lastDurationMs (stats b) \<noteq> 0 then lastDurationMs (stats b)
      else 0)"

text \<open>The bots that \<^verbatim>\<open>createBot\<close>, \<^verbatim>\<open>bot.start\<close> and \<^verbatim>\<open>bot.stop\<close> can produce.\<close>

inductive reachable :: "'c bot \<Rightarrow> bool" where
  created: "reachable (fst (createBot bid timeNow buildTime nm strat smb cfg))"
| started: "reachable b \<Longrightarrow> reachable (fst (bot_start now b))"
| stopped: "reachable b \<Longrightarrow> reachable (fst (bot_stop now b))"

section \<open>Stream client (BinanceWS in src/server.js)\<close>

text \<open>
  The client's fields together with the part of the world its methods act on: the sockets
  created so far (a socket's id is its position), the interval timers set so far with
  whether each is still active, the pending \<^verbatim>\<open>setTimeout\<close> callbacks, and the number of
  listen-key requests sent. A socket remembers which handlers were attached to it: those of
  the user stream, or those of a market stream with the \<^verbatim>\<open>symbol\<close> and
  \<^verbatim>\<open>streamType\<close> of the call that created it.
\<close>

datatype sock_kind = User_Socket | Market_Socket string string

datatype sock_state = Connected | Closing | Terminated | Gone

record sock =
  url :: string
  kind :: sock_kind
  sstate :: sock_state

datatype callback = Recreate_User_Stream | Resubscribe string string

record ws_client =
  closed_ws :: bool
  userListenKey :: "string option"
  userWs :: "nat option"
  marketWss :: "(string \<times> nat) list"
  keepAliveTimer :: "nat option"
  socks :: "sock list"
  intervals :: "bool list"
  timeouts :: "callback list"
  keyRequests :: nat

definition newClient :: ws_client where
  "newClient = \<lparr>closed_ws = False, userListenKey = None, userWs = None, marketWss = [],
                 keepAliveTimer = None, socks = [], intervals = [], timeouts = [],
                 keyRequests = 0\<rparr>"

definition toLowerChar :: "char \<Rightarrow> char" where
  "toLowerChar c =
     (if (65::nat) \<le> of_char c \<and> of_char c \<le> (90::nat)
      then char_of (of_char c + (32::nat)) else c)"

definition toLowerCase :: "string \<Rightarrow> string" where
  "toLowerCase s = map toLowerChar s"

definition openUserWS :: "ws_client \<Rightarrow> ws_client" where
  "openUserWS c =
     (case userListenKey c of
        None \<Rightarrow> c
      | Some k \<Rightarrow>
          c\<lparr>userWs := Some (length (socks c)),
            socks := socks c @ [\<lparr>url = ''wss://stream.binance.com:9443/ws/'' @ k,
                                  kind = User_Socket, sstate = Connected\<rparr>]\<rparr>)"

text \<open>
  \<^verbatim>\<open>startUserStream\<close> awaits the answer to its listen-key request, so it is two steps:
  sending the request, and continuing with the answer (\<open>None\<close> when the request failed).
\<close>

definition startUserStream_send :: "ws_client \<Rightarrow> ws_client" where
  "startUserStream_send c = c\<lparr>keyRequests := keyRequests c + 1\<rparr>"

definition startUserStream_answer :: "string option \<Rightarrow> ws_client \<Rightarrow> ws_client" where
  "startUserStream_answer res c =
     (case res of
        None \<Rightarrow> c
      | Some k \<Rightarrow>
          let c1 = openUserWS (c\<lparr>userListenKey := Some k\<rparr>)
          in c1\<lparr>keepAliveTimer := Some (length (intervals c1)),
                intervals := intervals c1 @ [True]\<rparr>)"

definition recreateUserStream :: "ws_client \<Rightarrow> ws_client" where
  "recreateUserStream c = (if closed_ws c then c else startUserStream_send c)"

definition subscribeMarketSymbol :: "string \<Rightarrow> string \<Rightarrow> ws_client \<Rightarrow> ws_client" where
  "subscribeMarketSymbol sy streamType c =
     (let stream = toLowerCase sy @ ''@'' @ streamType
      in if map_of (marketWss c) stream \<noteq> None then c
         else c\<lparr>marketWss := marketWss c @ [(stream, length (socks c))],
                socks := socks c @ [\<lparr>url = ''wss://stream.binance.com:9443/ws/'' @ stream,
                                      kind = Market_Socket sy streamType,
                                      sstate = Connected\<rparr>]\<rparr>)"

text \<open>The \<^verbatim>\<open>close\<close> handlers attached in \<^verbatim>\<open>_openUserWS\<close> and \<^verbatim>\<open>subscribeMarketSymbol\<close>.\<close>

definition onUserClose :: "ws_client \<Rightarrow> ws_client" where
  "onUserClose c = c\<lparr>userWs := None, timeouts := timeouts c @ [Recreate_User_Stream]\<rparr>"

definition onMarketClose :: "string \<Rightarrow> string \<Rightarrow> ws_client \<Rightarrow> ws_client" where
  "onMarketClose sy streamType c =
     (let stream = toLowerCase sy @ ''@'' @ streamType
      in c\<lparr>marketWss := filter (\<lambda>(k, w). k \<noteq> stream) (marketWss c),
            timeouts := timeouts c @ [Resubscribe sy streamType]\<rparr>)"

definition setSockState :: "sock_state \<Rightarrow> nat \<Rightarrow> sock list \<Rightarrow> sock list" where
  "setSockState st i ss = (if i < length ss then ss[i := (ss ! i)\<lparr>sstate := st\<rparr>] else ss)"

definition cancelInterval :: "nat \<Rightarrow> bool list \<Rightarrow> bool list" where
  "cancelInterval i ts = (if i < length ts then ts[i := False] else ts)"

definition closeAll :: "ws_client \<Rightarrow> ws_client" where
  "closeAll c =
     (let c1 = c\<lparr>closed_ws := True\<rparr>;
          c2 = (case userWs c1 of
                  None \<Rightarrow> c1
                | Some w \<Rightarrow> c1\<lparr>socks := setSockState Closing w (socks c1)\<rparr>);
          c3 = c2\<lparr>socks := fold (\<lambda>(k, w). setSockState Terminated w) (marketWss c2) (socks c2)\<rparr>;
          c4 = c3\<lparr>marketWss := []\<rparr>;
          c5 = (case keepAliveTimer c4 of
                  None \<Rightarrow> c4
                | Some t \<Rightarrow> c4\<lparr>intervals := cancelInterval t (intervals c4)\<rparr>)
      in c5\<lparr>userListenKey := None\<rparr>)"

text \<open>
  What can happen to a client: a call of one of its public methods, the answer to a
  listen-key request, the \<^verbatim>\<open>close\<close> event of socket \<open>i\<close>, and the expiry of the oldest
  pending timeout.
\<close>

datatype ws_event =
    Start_User_Stream
  | Key_Answer "string option"
  | Subscribe string string
  | Close_All
  | Socket_Close nat
  | Timeout_Expires

definition runCallback :: "callback \<Rightarrow> ws_client \<Rightarrow> ws_client" where
  "runCallback cb c =
     (case cb of
        Recreate_User_Stream \<Rightarrow> recreateUserStream c
      | Resubscribe sy streamType \<Rightarrow> subscribeMarketSymbol sy streamType c)"

definition ws_step :: "ws_event \<Rightarrow> ws_client \<Rightarrow> ws_client" where
  "ws_step ev c =
     (case ev of
        Start_User_Stream \<Rightarrow> startUserStream_send c
      | Key_Answer res \<Rightarrow> startUserStream_answer res c
      | Subscribe sy streamType \<Rightarrow> subscribeMarketSymbol sy streamType c
      | Close_All \<Rightarrow> closeAll c
      | Socket_Close i \<Rightarrow>
          (if i < length (socks c) \<and> sstate (socks c ! i) \<noteq> Gone then
             let c1 = c\<lparr>socks := setSockState Gone i (socks c)\<rparr>
             in (case kind (socks c ! i) of
                   User_Socket \<Rightarrow> onUserClose c1
                 | Market_Socket sy streamType \<Rightarrow> onMarketClose sy streamType c1)
           else c)
      | Timeout_Expires \<Rightarrow>
          (case timeouts c of
             [] \<Rightarrow> c
           | cb # rest \<Rightarrow> runCallback cb (c\<lparr>timeouts := rest\<rparr>)))"

definition ws_run :: "ws_event list \<Rightarrow> ws_client \<Rightarrow> ws_client" where
  "ws_run evs c = fold ws_step evs c"

definition shutdownTrace :: "ws_event list" where
  "shutdownTrace =
     [Start_User_Stream, Key_Answer (Some ''key1''), Subscribe ''BTCUSDT'' ''kline_1m'',
      Close_All]"

section \<open>Persistence store (src/services/persistence.js)\<close>

text \<open>
  The values a state handed to \<^verbatim>\<open>saveBotState\<close> is made of. Numbers are exact rationals;
  \<open>JNaN\<close> stands for the numbers \<^verbatim>\<open>NaN\<close>, \<^verbatim>\<open>Infinity\<close> and \<^verbatim>\<open>-Infinity\<close>, which
  \<^verbatim>\<open>JSON.stringify\<close> treats alike.
\<close>

datatype jsval =
    JUndefined
  | JNull
  | JBool bool
  | JNum rat
  | JNaN
  | JStr string
  | JArr "jsval list"
  | JObj "(string \<times> jsval) list"

text \<open>What a JSON text denotes; the file holds the text, the model its tree.\<close>

datatype json =
    TNull
  | TBool bool
  | TNum rat
  | TStr string
  | TArr "json list"
  | TObj "(string \<times> json) list"

text \<open>
  \<^verbatim>\<open>JSON.stringify\<close>: \<^verbatim>\<open>undefined\<close> has no text (\<open>None\<close>); inside an array it is
  written as \<^verbatim>\<open>null\<close>, and a property holding it is left out; a number that is not
  finite is written as \<^verbatim>\<open>null\<close>.
\<close>

fun stringify :: "jsval \<Rightarrow> json option" where
  "stringify JUndefined = None"
| "stringify JNull = Some TNull"
| "stringify (JBool b) = Some (TBool b)"
| "stringify (JNum r) = Some (TNum r)"
| "stringify JNaN = Some TNull"
| "stringify (JStr s) = Some (TStr s)"
| "stringify (JArr xs) =
     Some (TArr (map (\<lambda>x. case stringify x of None \<Rightarrow> TNull | Some t \<Rightarrow> t) xs))"
| "stringify (JObj kvs) =
     Some (TObj (concat (map
                   (\<lambda>kv. case stringify (snd kv) of None \<Rightarrow> [] | Some t \<Rightarrow> [(fst kv, t)])
                   kvs)))"

fun parse :: "json \<Rightarrow> jsval" where
  "parse TNull = JNull"
| "parse (TBool b) = JBool b"
| "parse (TNum r) = JNum r"
| "parse (TStr s) = JStr s"
| "parse (TArr ts) = JArr (map parse ts)"
| "parse (TObj kts) = JObj (map (\<lambda>kt. (fst kt, parse (snd kt))) kts)"

fun js_truthy :: "jsval \<Rightarrow> bool" where
  "js_truthy JUndefined = False"
| "js_truthy JNull = False"
| "js_truthy (JBool b) = b"
| "js_truthy (JNum r) = (r \<noteq> 0)"
| "js_truthy JNaN = False"
| "js_truthy (JStr s) = (s \<noteq> [])"
| "js_truthy (JArr xs) = True"
| "js_truthy (JObj kvs) = True"

text \<open>
  A file holds a JSON text or something \<^verbatim>\<open>JSON.parse\<close> rejects. \<^verbatim>\<open>writeFileSync\<close> can
  fail (\<open>writable = False\<close>); \<^verbatim>\<open>saveBotState\<close> then logs a warning and leaves the
  directory as it was.
\<close>

datatype file_content = Json_Text json | Broken_Text

type_synonym directory = "string \<Rightarrow> file_content option"

definition saveBotState :: "string \<Rightarrow> jsval \<Rightarrow> rat \<Rightarrow> bool \<Rightarrow> directory \<Rightarrow> directory" where
  "saveBotState bid state now writable dir =
     (case stringify (JObj [(''updatedAt'', JNum now), (''state'', state)]) of
        None \<Rightarrow> dir
      | Some txt \<Rightarrow> if writable then dir(bid \<mapsto> Json_Text txt) else dir)"

definition noFiles :: directory where
  "noFiles = (\<lambda>bid. None)"

text \<open>
  \<^verbatim>\<open>loadBotState\<close>: \<^verbatim>\<open>parsed.state\<close> throws for \<^verbatim>\<open>null\<close>, is \<^verbatim>\<open>undefined\<close> for
  other values that are not objects, and every failure is answered with \<^verbatim>\<open>null\<close>.
\<close>

definition loadBotState :: "string \<Rightarrow> directory \<Rightarrow> jsval" where
  "loadBotState bid dir =
     (case dir bid of
        None \<Rightarrow> JNull
      | Some Broken_Text \<Rightarrow> JNull
      | Some (Json_Text txt) \<Rightarrow>
          (case parse txt of
             JObj kvs \<Rightarrow>
               (case map_of kvs ''state'' of
                  None \<Rightarrow> JNull
                | Some st \<Rightarrow> if js_truthy st then st else JNull)
           | other \<Rightarrow> JNull))"

text \<open>The values JSON represents exactly: nothing undefined and no non-finite number inside.\<close>

fun json_safe :: "jsval \<Rightarrow> bool" where
  "json_safe JUndefined = False"
| "json_safe JNaN = False"
| "json_safe (JArr xs) = list_all json_safe xs"
| "json_safe (JObj kvs) = list_all (\<lambda>kv. json_safe (snd kv)) kvs"
| "json_safe v = True"

text \<open>
  What the grid runner's \<^verbatim>\<open>persist()\<close> hands to \<^verbatim>\<open>saveBotState\<close> when the runner is
  stopped before it ever obtained a price: \<^verbatim>\<open>initialStartPrice\<close> is still undefined.
\<close>

definition stoppedGridState :: jsval where
  "stoppedGridState =
     JObj [(''gridLevels'', JNum 2), (''gridSpread'', JNum 10), (''orderSize'', JNum (1 / 1000)),
           (''timeCreated'', JNum 1700000000000), (''timeStarted'', JNum 1700000001000),
           (''timeStopped'', JNum 1700000002000),
           (''stats'', JObj [(''completedRounds'', JNum 0), (''realizedPnl'', JNum 0),
                             (''lastDurationMs'', JNum 1000)]),
           (''orders'', JArr []), (''unmatchedBuys'', JArr []),
           (''initialStartPrice'', JUndefined)]"

text \<open>A snapshot as \<^verbatim>\<open>_persistBot\<close> writes it for a running grid bot.\<close>

definition runningSnapshot :: jsval where
  "runningSnapshot =
     JObj [(''name'', JStr ''grid-1''), (''strategy'', JStr ''grid''), (''symbol'', JStr ''BTCUSDT''),
           (''status'', JStr ''running''),
           (''config'', JObj [(''gridLevels'', JNum 2), (''gridSpread'', JNum 10),
                              (''orderSize'', JNum (1 / 1000)),
                              (''timeCreated'', JNum 1700000000000),
                              (''timeStarted'', JNum 1700000001000),
                              (''timeStopped'', JNull)]),
           (''stats'', JObj [(''completedRounds'', JNum 7), (''realizedPnl'', JNum (7 / 100)),
                             (''lastDurationMs'', JNum 0)])]"

section \<open>Numeric helpers (src/utils/math.js)\<close>

text \<open>
  Numbers are exact rationals: the rounding of binary floating point, \<^verbatim>\<open>NaN\<close> and the
  infinities are outside the model. Where the source reads the textual form of a number (the
  tick and step sizes), the number is given as a decimal \<open>mant * 10 ^ expo\<close>, the decimal
  that its textual form shows.
\<close>

record decimal =
  mant :: int
  expo :: int

definition dval :: "decimal \<Rightarrow> rat" where
  "dval d = (if 0 \<le> expo d then of_int (mant d) * 10 ^ nat (expo d)
             else of_int (mant d) / 10 ^ nat (- expo d))"

definition digitChar :: "nat \<Rightarrow> char" where
  "digitChar d = ''0123456789'' ! d"

fun digits10 :: "nat \<Rightarrow> string" where
  "digits10 n = (if n < 10 then [digitChar n] else digits10 (n div 10) @ [digitChar (n mod 10)])"

declare digits10.simps [simp del]

text \<open>The significand without trailing zeros, as \<^verbatim>\<open>Number.prototype.toString\<close> prints it.\<close>

function stripZeros :: "nat \<Rightarrow> int \<Rightarrow> nat \<times> int" where
  "stripZeros m e = (if m \<noteq> 0 \<and> m mod 10 = 0 then stripZeros (m div 10) (e + 1) else (m, e))"
  by pat_completeness auto
termination
  by (relation "measure (\<lambda>(m, e). m)") auto

declare stripZeros.simps [simp del]

text \<open>
  \<^verbatim>\<open>Number.prototype.toString\<close> as ECMAScript defines it for radix 10: with \<open>k\<close> digits
  \<open>s\<close> and the number equal to \<open>s * 10 ^ (n - k)\<close>, plain decimal notation is used for
  \<open>-6 < n \<le> 21\<close> and exponent notation otherwise.
\<close>

definition positiveToString :: "nat \<Rightarrow> int \<Rightarrow> string" where
  "positiveToString m e =
     (let (s, e') = stripZeros m e;
          ds = digits10 s;
          k = int (length ds);
          n = e' + k
      in if k \<le> n \<and> n \<le> 21 then ds @ replicate (nat (n - k)) (CHR ''0'')
         else if 0 < n \<and> n \<le> 21 then take (nat n) ds @ ''.'' @ drop (nat n) ds
         else if - 6 < n \<and> n \<le> 0 then ''0.'' @ replicate (nat (- n)) (CHR ''0'') @ ds
         else (if k = 1 then ds else take 1 ds @ ''.'' @ drop 1 ds)
              @ ''e'' @ (if n - 1 < 0 then ''-'' else ''+'') @ digits10 (nat \<bar>n - 1\<bar>))"

definition numToString :: "decimal \<Rightarrow> string" where
  "numToString d =
     (if mant d = 0 then ''0''
      else if mant d < 0 then ''-'' @ positiveToString (nat (- mant d)) (expo d)
      else positiveToString (nat (mant d)) (expo d))"

text \<open>\<^verbatim>\<open>s.split(c)\<close> for a one-character separator.\<close>

fun splitOn :: "char \<Rightarrow> string \<Rightarrow> string list" where
  "splitOn c [] = [[]]"
| "splitOn c (x # xs) =
     (if x = c then [] # splitOn c xs
      else (case splitOn c xs of [] \<Rightarrow> [[x]] | w # ws \<Rightarrow> (x # w) # ws))"

text \<open>\<^verbatim>\<open>Math.max(0, (t.toString().split('.')[1] || '').length)\<close>\<close>

definition precisionOf :: "decimal \<Rightarrow> nat" where
  "precisionOf t =
     (let parts = splitOn (CHR ''.'') (numToString t);
          second = (if 1 < length parts then parts ! 1 else [])
      in max 0 (length second))"

text \<open>
  The number that the text \<^verbatim>\<open>x.toFixed(p)\<close> denotes and \<^verbatim>\<open>parseFloat\<close> reads back:
  \<open>x\<close> rounded to \<open>p\<close> decimals, halves away from zero; from \<open>10 ^ 21\<close> on, \<^verbatim>\<open>toFixed\<close>
  prints the number itself. (\<^verbatim>\<open>toFixed\<close> rejects more than 100 decimals; the textual form
  of a double has far fewer characters.)
\<close>

definition toFixed :: "nat \<Rightarrow> rat \<Rightarrow> rat" where
  "toFixed p x =
     (if 10 ^ 21 \<le> \<bar>x\<bar> then x
      else sgn x * of_int \<lfloor>\<bar>x\<bar> * 10 ^ p + 1 / 2\<rfloor> / 10 ^ p)"

definition roundToTickSize :: "rat \<Rightarrow> decimal \<Rightarrow> rat" where
  "roundToTickSize v tickSize =
     (if dval tickSize \<le> 0 then v
      else
        let precision = precisionOf tickSize;
            multiplier = v / dval tickSize;
            roundedMultiplier = \<lfloor>multiplier\<rfloor>;
            roundedValue = of_int roundedMultiplier * dval tickSize
        in toFixed precision roundedValue)"

definition roundToStepSize :: "rat \<Rightarrow> decimal \<Rightarrow> rat" where
  "roundToStepSize v stepSize =
     (if dval stepSize \<le> 0 then v
      else
        let precision = precisionOf stepSize;
            multiplier = v / dval stepSize;
            roundedMultiplier = \<lfloor>multiplier\<rfloor>;
            roundedValue = of_int roundedMultiplier * dval stepSize
        in toFixed precision roundedValue)"


definition isDigit :: "char \<Rightarrow> bool" where
  "isDigit c = (c \<in> set ''0123456789'')"




section \<open>Execution reports and the exchange, as the runners see them\<close>

text \<open>
  An event on the bus channel \<^verbatim>\<open>order\<close>. The runners read the fields \<^verbatim>\<open>s\<close> (symbol),
  \<^verbatim>\<open>X\<close> (order status), \<^verbatim>\<open>S\<close> (side), \<^verbatim>\<open>i\<close> (exchange order id) and \<^verbatim>\<open>z\<close>
  (cumulative filled quantity) of \<^verbatim>\<open>raw.raw || raw\<close>. A field the event does not have is
  \<open>None\<close>; \<open>ev_z\<close> is the number \<^verbatim>\<open>parseFloat(evt.z)\<close>, which every execution report
  carries.
\<close>

record exec_report =
  ev_s :: "string option"
  ev_X :: "string option"
  ev_S :: "string option"
  ev_i :: "int option"
  ev_z :: rat

datatype bus_message = Wrapped exec_report | Bare exec_report

fun unwrap :: "bus_message \<Rightarrow> exec_report" where
  "unwrap (Wrapped evt) = evt"
| "unwrap (Bare evt) = evt"

text \<open>
  What a runner is created with: the bot's symbol, the first segment of its id, the
  strategy parameters, and the symbol filters in force.
\<close>

record runner_cfg =
  r_symbol :: string
  r_botTag :: string
  r_gridSpread :: rat
  r_orderSize :: rat
  r_takeProfit :: "rat option"
  r_tickSize :: decimal
  r_stepSize :: decimal

text \<open>A failed gateway call, with the exchange's code \<^verbatim>\<open>e.response?.data?.code\<close> if any.\<close>

datatype api_error = Api_Error "int option"

fun errCode :: "api_error \<Rightarrow> int option" where
  "errCode (Api_Error c) = c"

text \<open>What a runner does to the outside while it handles an event.\<close>

datatype action =
    Cancel_Request int
  | Order_Request string rat rat string
  | Bus_Order string "int option"
  | Bot_Error "int option"
  | Stop_Requested
  | Stats_Update int rat
  | Persist

section \<open>DCA-Buy runner (src/strategies/dcaBuy.js)\<close>























section \<open>Grid runner (src/strategies/grid.js)\<close>

text \<open>
  A local order of the grid: \<^verbatim>\<open>{price, side, status}\<close> when created, and
  \<^verbatim>\<open>orderId\<close>, \<^verbatim>\<open>clientOrderId\<close> and \<^verbatim>\<open>quantity\<close> once placed (\<open>None\<close> before).
  The quantity is the one number of the runner that a division by zero can make non-finite.
\<close>

datatype jsnum = Fin rat | PosInf | NegInf | NaN

record grid_order =
  o_price :: rat
  o_side :: string
  o_status :: string
  o_orderId :: "int option"
  o_clientOrderId :: "string option"
  o_quantity :: "jsnum option"

record held_buy =
  b_price :: rat
  b_quantity :: rat

record grid_state =
  gridOrders :: "grid_order list"
  unmatchedBuys :: "held_buy list"
  botStats :: stats

datatype grid_action =
    Place_Request string jsnum rat string
  | Bus_Event string
  | Bot_Error_Event
  | Bot_Stop
  | Stats_Persisted
  | Grid_Persisted

text \<open>\<^verbatim>\<open>a / b\<close>, \<^verbatim>\<open>Math.max(a, b)\<close>, \<^verbatim>\<open>roundToStepSize\<close> and \<^verbatim>\<open>q <= 0\<close> on such a quantity.\<close>

definition jsDivide :: "rat \<Rightarrow> rat \<Rightarrow> jsnum" where
  "jsDivide a b =
     (if b \<noteq> 0 then Fin (a / b)
      else if 0 < a then PosInf else if a < 0 then NegInf else NaN)"

fun jsMax :: "jsnum \<Rightarrow> rat \<Rightarrow> jsnum" where
  "jsMax (Fin q) b = Fin (max q b)"
| "jsMax PosInf b = PosInf"
| "jsMax NegInf b = Fin b"
| "jsMax NaN b = NaN"

definition roundNumToStepSize :: "jsnum \<Rightarrow> decimal \<Rightarrow> jsnum" where
  "roundNumToStepSize x stepSize =
     (if dval stepSize \<le> 0 then x
      else (case x of Fin q \<Rightarrow> Fin (roundToStepSize q stepSize) | other \<Rightarrow> other))"

fun notPositive :: "jsnum \<Rightarrow> bool" where
  "notPositive (Fin q) = (q \<le> 0)"
| "notPositive NegInf = True"
| "notPositive PosInf = False"
| "notPositive NaN = False"

text \<open>
  \<^verbatim>\<open>handlePlaceOrderError\<close>. \<open>retryRes\<close> is the exchange's answer to the one retry after
  code -1013 and \<open>retryNow\<close> the clock then.
\<close>

definition handlePlaceOrderError ::
  "runner_cfg \<Rightarrow> int \<Rightarrow> api_error + int \<Rightarrow> api_error \<Rightarrow> grid_order \<Rightarrow> jsnum
     \<Rightarrow> grid_order \<times> grid_action list" where
  "handlePlaceOrderError cfg retryNow retryRes e orderData quantity =
     (if errCode e = Some (- 2014) \<or> errCode e = Some (- 2015)
      then (orderData, [Bot_Error_Event, Bot_Stop])
      else if errCode e = Some (- 2010)
      then (orderData\<lparr>o_status := ''ignored_balance''\<rparr>, [])
      else if errCode e = Some (- 1013)
      then
        (let cid = r_botTag cfg @ ''-'' @ digits10 (nat retryNow) @ ''-RETRY-'' @ take 1 (o_side orderData);
             req = Place_Request (o_side orderData) quantity (o_price orderData) cid
         in (case retryRes of
               Inr oid \<Rightarrow>
                 (orderData\<lparr>o_orderId := Some oid, o_clientOrderId := Some cid,
                            o_status := ''open'', o_quantity := Some quantity\<rparr>,
                  [req, Bus_Event ''placed''])
             | Inl retryError \<Rightarrow> (orderData\<lparr>o_status := ''error''\<rparr>, [req])))
      else (orderData\<lparr>o_status := ''error''\<rparr>, []))"

text \<open>
  \<^verbatim>\<open>placeOrder\<close>. \<open>now\<close> is the clock, \<open>rnd\<close> the five random characters of the client
  order id and \<open>res\<close> the exchange's answer to \<^verbatim>\<open>newOrder\<close>.
\<close>

definition placeOrder ::
  "runner_cfg \<Rightarrow> int \<Rightarrow> string \<Rightarrow> api_error + int \<Rightarrow> int \<Rightarrow> api_error + int \<Rightarrow> grid_order
     \<Rightarrow> grid_order \<times> grid_action list" where
  "placeOrder cfg now rnd res retryNow retryRes orderData =
     (let calculatedQuantity = jsDivide (r_orderSize cfg) (o_price orderData);
          quantity = roundNumToStepSize (jsMax calculatedQuantity (dval (r_stepSize cfg)))
                       (r_stepSize cfg)
      in if notPositive quantity then (orderData, [])
         else
           let cid = r_botTag cfg @ ''-'' @ digits10 (nat now) @ ''-'' @ take 1 (o_side orderData)
                       @ ''-'' @ rnd;
               req = Place_Request (o_side orderData) quantity (o_price orderData) cid
           in (case res of
                 Inr oid \<Rightarrow>
                   (orderData\<lparr>o_orderId := Some oid, o_clientOrderId := Some cid,
                              o_status := ''open'', o_quantity := Some quantity\<rparr>,
                    [req, Bus_Event ''placed''])
               | Inl e \<Rightarrow>
                   (let (od, fx) = handlePlaceOrderError cfg retryNow retryRes e orderData quantity
                    in (od, req # fx))))"

text \<open>\<^verbatim>\<open>Array.prototype.findIndex\<close> (\<open>None\<close> for -1) and \<^verbatim>\<open>splice(i, 1)\<close>.\<close>

fun findIndex :: "('a \<Rightarrow> bool) \<Rightarrow> 'a list \<Rightarrow> nat option" where
  "findIndex P [] = None"
| "findIndex P (x # xs) = (if P x then Some 0 else map_option Suc (findIndex P xs))"

definition removeAt :: "nat \<Rightarrow> 'a list \<Rightarrow> 'a list" where
  "removeAt i xs = take i xs @ drop (Suc i) xs"

text \<open>
  The test \<^verbatim>\<open>o.orderId && o.orderId.toString() === orderId\<close>: the order has an id, the
  id is not 0, and it is the reported one.
\<close>

definition hasOrderId :: "int \<Rightarrow> grid_order \<Rightarrow> bool" where
  "hasOrderId i ord = (case o_orderId ord of None \<Rightarrow> False | Some n \<Rightarrow> n \<noteq> 0 \<and> n = i)"

definition nearPrice :: "runner_cfg \<Rightarrow> rat \<Rightarrow> held_buy \<Rightarrow> bool" where
  "nearPrice cfg buyPrice b = (\<bar>b_price b - buyPrice\<bar> < dval (r_tickSize cfg) / 2)"

text \<open>
  \<^verbatim>\<open>onExecutionReport\<close> of the grid runner. Its body is inside \<^verbatim>\<open>try\<close>; the only
  statement that can throw, \<^verbatim>\<open>evt.i.toString()\<close> for a report without \<^verbatim>\<open>i\<close>, comes
  before any change of the state.
\<close>

definition gridOnExecutionReport ::
  "runner_cfg \<Rightarrow> int \<Rightarrow> string \<Rightarrow> api_error + int \<Rightarrow> int \<Rightarrow> api_error + int \<Rightarrow> bus_message
     \<Rightarrow> grid_state \<Rightarrow> grid_state \<times> grid_action list" where
  "gridOnExecutionReport cfg now rnd res retryNow retryRes raw st =
     (let evt = unwrap raw in
      if ev_s evt \<noteq> Some (r_symbol cfg)
         \<or> (ev_X evt \<noteq> Some ''FILLED'' \<and> ev_X evt \<noteq> Some ''PARTIALLY_FILLED'')
      then (st, [])
      else
        (case ev_i evt of
           None \<Rightarrow> (st, [])
         | Some i \<Rightarrow>
             (case findIndex (hasOrderId i) (gridOrders st) of
                None \<Rightarrow> (st, [])
              | Some filledOrderIndex \<Rightarrow>
                  let filledOrder = gridOrders st ! filledOrderIndex;
                      filledQty = ev_z evt;
                      st1 = st\<lparr>gridOrders := removeAt filledOrderIndex (gridOrders st)\<rparr>;
                      (st2, counterOrder, fx2) =
                        (if ev_S evt = Some ''BUY'' then
                           let sellPrice = roundToTickSize (o_price filledOrder + r_gridSpread cfg)
                                             (r_tickSize cfg)
                           in (st1\<lparr>unmatchedBuys := unmatchedBuys st1
                                      @ [\<lparr>b_price = o_price filledOrder, b_quantity = filledQty\<rparr>]\<rparr>,
                               Some \<lparr>o_price = sellPrice, o_side = ''SELL'', o_status = ''pending'',
                                     o_orderId = None, o_clientOrderId = None, o_quantity = None\<rparr>,
                               [])
                         else if ev_S evt = Some ''SELL'' then
                           let buyPrice = roundToTickSize (o_price filledOrder - r_gridSpread cfg)
                                            (r_tickSize cfg);
                               held = (case findIndex (nearPrice cfg buyPrice) (unmatchedBuys st1) of
                                         None \<Rightarrow> unmatchedBuys st1
                                       | Some matchIndex \<Rightarrow> removeAt matchIndex (unmatchedBuys st1));
                               pnl = (o_price filledOrder - buyPrice) * filledQty
                           in (st1\<lparr>unmatchedBuys := held,
                                    botStats := addStats 1 pnl (botStats st1)\<rparr>,
                               Some \<lparr>o_price = buyPrice, o_side = ''BUY'', o_status = ''pending'',
                                     o_orderId = None, o_clientOrderId = None, o_quantity = None\<rparr>,
                               [Stats_Persisted])
                         else (st1, None, []))
                  in (case counterOrder of
                        None \<Rightarrow> (st2, Bus_Event ''filled'' # fx2 @ [Grid_Persisted])
                      | Some c \<Rightarrow>
                          let (placed, fx3) = placeOrder cfg now rnd res retryNow retryRes c
                          in (st2\<lparr>gridOrders := gridOrders st2 @ [placed]\<rparr>,
                              Bus_Event ''filled'' # fx2 @ fx3 @ [Grid_Persisted])))))"

text \<open>
  The first scenario of the specification: two levels of spread 10 around 30000, order size
  0.001, tick 0.01 and step 0.00001; the four orders are open with the ids 1 to 4.
\<close>

definition gridCfg :: runner_cfg where
  "gridCfg = \<lparr>r_symbol = ''BTCUSDT'', r_botTag = ''1f0c9a2e'', r_gridSpread = 10,
              r_orderSize = 1 / 1000, r_takeProfit = None,
              r_tickSize = \<lparr>mant = 1, expo = - 2\<rparr>, r_stepSize = \<lparr>mant = 1, expo = - 5\<rparr>\<rparr>"

definition openOrder :: "int \<Rightarrow> string \<Rightarrow> rat \<Rightarrow> grid_order" where
  "openOrder i sd p =
     \<lparr>o_price = p, o_side = sd, o_status = ''open'', o_orderId = Some i,
      o_clientOrderId = Some ''1f0c9a2e-1-x'', o_quantity = Some (Fin (1 / 100000))\<rparr>"

definition gridStart :: grid_state where
  "gridStart =
     \<lparr>gridOrders = [openOrder 1 ''BUY'' 29990, openOrder 2 ''SELL'' 30010,
                     openOrder 3 ''BUY'' 29980, openOrder 4 ''SELL'' 30020],
      unmatchedBuys = [],
      botStats = \<lparr>completedRounds = 0, realizedPnl = 0, lastDurationMs = 0\<rparr>\<rparr>"

definition filled :: "string \<Rightarrow> int \<Rightarrow> bus_message" where
  "filled sd i =
     Wrapped \<lparr>ev_s = Some ''BTCUSDT'', ev_X = Some ''FILLED'', ev_S = Some sd,
              ev_i = Some i, ev_z = 1 / 100000\<rparr>"

definition afterBuy :: "grid_state \<times> grid_action list" where
  "afterBuy = gridOnExecutionReport gridCfg 1001 ''aaaaa'' (Inr 5) 0 (Inr 0) (filled ''BUY'' 1) gridStart"

definition afterSell :: "grid_state \<times> grid_action list" where
  "afterSell = gridOnExecutionReport gridCfg 1002 ''bbbbb'' (Inr 6) 0 (Inr 0) (filled ''SELL'' 5)
                 (fst afterBuy)"


definition orderQuantity :: "runner_cfg \<Rightarrow> rat \<Rightarrow> jsnum" where
  "orderQuantity cfg p =
     roundNumToStepSize (jsMax (jsDivide (r_orderSize cfg) p) (dval (r_stepSize cfg)))
       (r_stepSize cfg)"






text \<open>
  How the grid runner's \<^verbatim>\<open>stop()\<close> picks its own orders out of the result of
  \<^verbatim>\<open>getOpenOrders\<close>:
  \<^verbatim>\<open>openOrders.filter(o => o.clientOrderId && o.clientOrderId.startsWith(botTag + '-'))\<close>.
  A client order id that is truthy and not a string has no \<^verbatim>\<open>startsWith\<close>.
\<close>

definition isBotOrder :: "string \<Rightarrow> jobj \<Rightarrow> unit js_error + bool" where
  "isBotOrder botTag ord =
     (case getProp ord ''clientOrderId'' of
        Str s \<Rightarrow> Inr (s \<noteq> [] \<and> take (length (botTag @ ''-'')) s = botTag @ ''-'')
      | v \<Rightarrow> if truthy v then Inl TypeError else Inr False)"

fun botOrders :: "string \<Rightarrow> jobj list \<Rightarrow> unit js_error + jobj list" where
  "botOrders botTag [] = Inr []"
| "botOrders botTag (ord # rest) =
     (case isBotOrder botTag ord of
        Inl err \<Rightarrow> Inl err
      | Inr keep \<Rightarrow>
          (case botOrders botTag rest of
             Inl err \<Rightarrow> Inl err
           | Inr kept \<Rightarrow> Inr (if keep then ord # kept else kept)))"

section \<open>Properties of the retry helper\<close>

lemma retry_loop_invocations:
  "invocations (retry_loop fn rs fac attempt delay run) \<le> invocations run + (Suc rs - attempt)"
proof (induction fn rs fac attempt delay run rule: retry_loop.induct)
  case (1 fn rs fac attempt delay run)
  show ?case
  proof (cases "attempt \<le> rs")
    case False
    then show ?thesis by (simp add: retry_loop.simps[of fn rs fac attempt delay run])
  next
    case le: True
    show ?thesis
    proof (cases "fn (invocations run)")
      case (Inr v)
      with le show ?thesis by (simp add: retry_loop.simps[of fn rs fac attempt delay run])
    next
      case (Inl err)
      show ?thesis
      proof (cases "attempt = rs")
        case True
        with Inl show ?thesis by (simp add: retry_loop.simps[of fn rs fac attempt delay run])
      next
        case False
        with le Inl "1.IH"[OF le Inl False] show ?thesis
          by (simp add: retry_loop.simps[of fn rs fac attempt delay run])
      qed
    qed
  qed
qed

lemma retry_loop_all_fail:
  "\<forall>k. isl (fn k) \<Longrightarrow> attempt \<le> rs \<Longrightarrow>
     completion (retry_loop fn rs fac attempt delay run)
       = Threw (projl (fn (invocations run + (rs - attempt))))
   \<and> invocations (retry_loop fn rs fac attempt delay run) = invocations run + (Suc rs - attempt)"
proof (induction fn rs fac attempt delay run rule: retry_loop.induct)
  case (1 fn rs fac attempt delay run)
  from "1.prems" obtain err where e: "fn (invocations run) = Inl err"
    by (metis isl_def)
  show ?case
  proof (cases "attempt = rs")
    case True
    with e show ?thesis by (simp add: retry_loop.simps[of fn rs fac attempt delay run])
  next
    case False
    define run' where "run' = run\<lparr>invocations := invocations run + 1,
                         notified := notified run @ [(attempt + 1, err)],
                         waits := waits run @ [delay]\<rparr>"
    from False "1.prems" have lt: "attempt + 1 \<le> rs" by simp
    have step: "retry_loop fn rs fac attempt delay run
                  = retry_loop fn rs fac (attempt + 1) (delay * fac) run'"
      using e False "1.prems"(2)
      by (subst retry_loop.simps) (simp add: run'_def)
    have ih: "completion (retry_loop fn rs fac (attempt + 1) (delay * fac) run')
                = Threw (projl (fn (invocations run' + (rs - (attempt + 1)))))
              \<and> invocations (retry_loop fn rs fac (attempt + 1) (delay * fac) run')
                = invocations run' + (Suc rs - (attempt + 1))"
      unfolding run'_def by (rule "1.IH"[OF "1.prems"(2) e False "1.prems"(1) lt])
    have a1: "invocations run' + (rs - (attempt + 1)) = invocations run + (rs - attempt)"
      using lt by (simp add: run'_def)
    have a2: "invocations run' + (Suc rs - (attempt + 1)) = invocations run + (Suc rs - attempt)"
      using lt by (simp add: run'_def)
    show ?thesis using ih by (simp only: step a1 a2)
  qed
qed

lemma retry_invocations: "invocations (retry fn rs mt fac) \<le> rs + 1"
  using retry_loop_invocations[of fn rs fac 0 mt
          "\<lparr>completion = Fell_Through, invocations = 0, notified = [], waits = []\<rparr>"]
  by (simp add: retry_def)

lemma retry_all_fail:
  assumes "\<forall>k. isl (fn k)"
  shows "completion (retry fn rs mt fac) = Threw (projl (fn rs))"
    and "invocations (retry fn rs mt fac) = rs + 1"
  using retry_loop_all_fail[OF assms, of 0 rs fac mt
          "\<lparr>completion = Fell_Through, invocations = 0, notified = [], waits = []\<rparr>"]
  by (simp_all add: retry_def)

text \<open>
  Claim C8. Whatever the wrapped operation does, \<^verbatim>\<open>retry\<close> with \<open>retries = r\<close> invokes it
  at most \<open>r + 1\<close> times, a signed gateway request (\<open>retries = 3\<close>) therefore at most four
  times; and when every invocation fails, \<^verbatim>\<open>retry\<close> throws the error of the last one,
  which is invocation number \<open>r\<close> counted from zero, after exactly \<open>r + 1\<close> invocations.
\<close>

theorem C8_retry_attempts_bounded:
  "invocations (retry fn r mt fac) \<le> r + 1
   \<and> invocations (signedRequest http) \<le> 3 + 1
   \<and> ((\<forall>k. isl (fn k)) \<longrightarrow>
        completion (retry fn r mt fac) = Threw (projl (fn r))
        \<and> invocations (retry fn r mt fac) = r + 1)"
  using retry_invocations[of fn r mt fac] retry_invocations[of http 3 300 2]
    retry_all_fail[of fn r mt fac]
  by (simp add: signedRequest_def)

theorem C8_retry_attempts_bounded_witness:
  "(\<forall>k. isl ((\<lambda>n. Inl (10 + n)) k :: nat + unit))
   \<and> completion (retry (\<lambda>n. Inl (10 + n) :: nat + unit) 3 300 2) = Threw 13
   \<and> invocations (retry (\<lambda>n. Inl (10 + n) :: nat + unit) 3 300 2) = 4"
  using C8_retry_attempts_bounded[of "\<lambda>n. Inl (10 + n) :: nat + unit" 3 300 2
          "\<lambda>n. Inl n :: nat + unit"]
  by simp

section \<open>Properties of the gateway's order queries\<close>

text \<open>
  Claim C10. \<^verbatim>\<open>getOpenOrders\<close> and \<^verbatim>\<open>getAllOrders\<close> always return a list and never
  throw; when the signed request fails (the retries are used up and \<^verbatim>\<open>retry\<close> throws)
  both return the empty list, which is also what they return when the exchange answers with
  an empty array, so a caller cannot tell the failure from there being no orders.
\<close>

theorem C10_order_queries_never_raise:
  "(\<exists>vs. getOpenOrders http = Inr vs) \<and> (\<exists>vs. getAllOrders http = Inr vs)
   \<and> (completion (signedRequest http) = Threw err \<longrightarrow>
        getOpenOrders http = Inr [] \<and> getAllOrders http = Inr []
        \<and> getOpenOrders http = getOpenOrders (\<lambda>n. Inr (Rows []))
        \<and> getAllOrders http = getAllOrders (\<lambda>n. Inr (Rows [])))"
proof -
  have empty: "ordersBody (\<lambda>n. Inr (Rows [])) = (Inr [] :: 'a js_error + jobj list)"
    by (simp add: ordersBody_def signedRequest_def retry_def retry_loop.simps)
  show ?thesis
    by (cases "ordersBody http")
       (auto simp: getOpenOrders_def getAllOrders_def empty ordersBody_def)
qed

theorem C10_order_queries_never_raise_witness:
  "completion (signedRequest (\<lambda>n. Inl (500 + n) :: nat + payload)) = Threw 503
   \<and> getOpenOrders (\<lambda>n. Inl (500 + n) :: nat + payload) = Inr []
   \<and> getAllOrders (\<lambda>n. Inl (500 + n) :: nat + payload) = Inr []
   \<and> getOpenOrders (\<lambda>n. Inl (500 + n) :: nat + payload) = getOpenOrders (\<lambda>n. Inr (Rows []) :: nat + payload)"
proof -
  have t: "completion (signedRequest (\<lambda>n. Inl (500 + n) :: nat + payload)) = Threw 503"
    using retry_all_fail(1)[of "\<lambda>n. Inl (500 + n) :: nat + payload" 3 300 2]
    by (simp add: signedRequest_def)
  show ?thesis
    using t C10_order_queries_never_raise[of "\<lambda>n. Inl (500 + n) :: nat + payload" 503]
    by blast
qed

text \<open>
  Claim C3. The objects returned by \<^verbatim>\<open>getOpenOrders\<close> carry the keys
  \<^verbatim>\<open>order_id, client_order_id, type, price, quantity, executed_quantity, symbol, status,
  time_in_force, created_at, updated_at\<close>, the two times as \<^verbatim>\<open>Date\<close> objects. For the
  open order \<open>sampleOrder\<close> the result is computed below: it has no key \<^verbatim>\<open>orderId\<close>,
  \<^verbatim>\<open>clientOrderId\<close>, \<^verbatim>\<open>side\<close> or \<^verbatim>\<open>qty\<close>, so reading any of them gives
  \<^verbatim>\<open>undefined\<close>, and its times are not numbers. The runners read these keys: the filter
  of the grid runner's \<^verbatim>\<open>stop()\<close> recognises the bot's order in the exchange's own object
  and no longer in the object \<^verbatim>\<open>getOpenOrders\<close> returns.
\<close>

theorem C3_open_orders_snake_case_at_sample:
  "getOpenOrders (\<lambda>n. Inr (Rows [Some sampleOrder]) :: unit + payload)
     = Inr [[(''order_id'', Num 7),
             (''client_order_id'', Str ''1f0c9a2e-1700000000000-B-x1y2z''),
             (''type'', Str ''BUY''),
             (''price'', Str ''29990.00000000''),
             (''quantity'', Str ''0.00001000''),
             (''executed_quantity'', Str ''0.00000000''),
             (''symbol'', Str ''BTCUSDT''),
             (''status'', Str ''NEW''),
             (''time_in_force'', Str ''GTC''),
             (''created_at'', DateOf (Num 1700000000000)),
             (''updated_at'', DateOf (Num 1700000000000))]]
   \<and> getProp (orderView sampleOrder) ''orderId'' = Undefined
   \<and> getProp (orderView sampleOrder) ''clientOrderId'' = Undefined
   \<and> getProp (orderView sampleOrder) ''side'' = Undefined
   \<and> getProp (orderView sampleOrder) ''qty'' = Undefined
   \<and> map fst (orderView order)
        = [''order_id'', ''client_order_id'', ''type'', ''price'', ''quantity'',
           ''executed_quantity'', ''symbol'', ''status'', ''time_in_force'', ''created_at'',
           ''updated_at'']
   \<and> botOrders ''1f0c9a2e'' [sampleOrder] = Inr [sampleOrder]
   \<and> botOrders ''1f0c9a2e'' [orderView sampleOrder] = Inr []"
  by (simp add: getOpenOrders_def ordersBody_def signedRequest_def retry_def
        retry_loop.simps orderView_def sampleOrder_def getProp_def js_or_def isBotOrder_def)

section \<open>Properties of the bot manager\<close>

lemma bot_start_inv:
  "(status b = ''running'') = (timeStarted (config b) \<noteq> None \<and> timeStopped (config b) = None)
   \<Longrightarrow> (status (fst (bot_start now b)) = ''running'')
       = (timeStarted (config (fst (bot_start now b))) \<noteq> None
          \<and> timeStopped (config (fst (bot_start now b))) = None)"
  by (auto simp: bot_start_def Let_def falsy_def)

lemma bot_stop_inv:
  "(status b = ''running'') = (timeStarted (config b) \<noteq> None \<and> timeStopped (config b) = None)
   \<Longrightarrow> (status (fst (bot_stop now b)) = ''running'')
       = (timeStarted (config (fst (bot_stop now b))) \<noteq> None
          \<and> timeStopped (config (fst (bot_stop now b))) = None)"
  by (auto simp: bot_stop_def Let_def falsy_def)

lemma createBot_inv:
  "(status (fst (createBot bid timeNow buildTime nm strat smb cfg)) = ''running'')
     = (timeStarted (config (fst (createBot bid timeNow buildTime nm strat smb cfg))) \<noteq> None
        \<and> timeStopped (config (fst (createBot bid timeNow buildTime nm strat smb cfg))) = None)"
  by (simp add: createBot_def buildBotInstance_def Let_def or_else_def falsy_def)

text \<open>
  Claim C5. \<^verbatim>\<open>bot.start()\<close> changes nothing and has no effect when the status is already
  \<^verbatim>\<open>running\<close>. Otherwise the status becomes \<^verbatim>\<open>running\<close>, \<^verbatim>\<open>timeStarted\<close> becomes
  \<open>now\<close> only if it was absent (the source's test \<^verbatim>\<open>!timeStarted\<close>) and is kept
  otherwise, \<^verbatim>\<open>timeStopped\<close> is cleared and \<^verbatim>\<open>runStartTime\<close> equals \<^verbatim>\<open>timeStarted\<close>.
  Consequently, when the snapshot of a running bot with \<^verbatim>\<open>timeStarted = T0\<close> (a time of
  the clock, hence not 0) is read back by \<^verbatim>\<open>loadBotsFromDisk\<close> after a restart, the
  resumed bot still has \<^verbatim>\<open>timeStarted = T0\<close> and \<^verbatim>\<open>listBots()\<close> reports
  \<^verbatim>\<open>currentDurationMs = now - T0\<close>. The snapshot read back is taken to be the one
  \<^verbatim>\<open>_persistBot\<close> wrote.
\<close>

theorem C5_start_keeps_first_start_time:
  "(status b = ''running'' \<longrightarrow> bot_start now b = (b, []))
   \<and> (status b \<noteq> ''running'' \<longrightarrow>
        status (fst (bot_start now b)) = ''running''
        \<and> timeStarted (config (fst (bot_start now b)))
            = (if falsy (timeStarted (config b)) then Some now else timeStarted (config b))
        \<and> timeStopped (config (fst (bot_start now b))) = None
        \<and> runStartTime (fst (bot_start now b)) = timeStarted (config (fst (bot_start now b))))
   \<and> (status b = ''running'' \<and> timeStarted (config b) = Some T0 \<and> T0 \<noteq> 0 \<and> name b \<noteq> [] \<longrightarrow>
        (\<exists>b' fx. resumeBot (botId b) t1 t2 (Some (persistBot b)) = Some (b', fx)
           \<and> status b' = ''running''
           \<and> timeStarted (config b') = Some T0
           \<and> currentDurationMs t3 b' = t3 - T0))"
  by (auto simp: bot_start_def Let_def resumeBot_def persistBot_def buildBotInstance_def
        falsy_def or_else_def currentDurationMs_def)

theorem C5_start_keeps_first_start_time_witness:
  "status (fst (createBot ''b1'' 5 6 ''n'' ''grid'' ''BTCUSDT'' ())) \<noteq> ''running''
   \<and> timeStarted (config (fst (bot_start 1000 (fst (createBot ''b1'' 5 6 ''n'' ''grid'' ''BTCUSDT'' ())))))
        = Some 1000
   \<and> status (fst (bot_start 1000 (fst (createBot ''b1'' 5 6 ''n'' ''grid'' ''BTCUSDT'' ())))) = ''running''
   \<and> bot_start 2000 (fst (bot_start 1000 (fst (createBot ''b1'' 5 6 ''n'' ''grid'' ''BTCUSDT'' ()))))
        = (fst (bot_start 1000 (fst (createBot ''b1'' 5 6 ''n'' ''grid'' ''BTCUSDT'' ()))), [])
   \<and> (\<exists>b' fx. resumeBot ''b1'' 3601000 3601001
            (Some (persistBot (fst (bot_start 1000 (fst (createBot ''b1'' 5 6 ''n'' ''grid'' ''BTCUSDT'' ()))))))
              = Some (b', fx)
          \<and> status b' = ''running'' \<and> timeStarted (config b') = Some 1000
          \<and> currentDurationMs 3601000 b' = 3600000)"
proof -
  define b0 :: "unit bot" where "b0 = fst (createBot ''b1'' 5 6 ''n'' ''grid'' ''BTCUSDT'' ())"
  define b1 where "b1 = fst (bot_start 1000 b0)"
  have s0: "status b0 \<noteq> ''running''" and f0: "falsy (timeStarted (config b0))"
    by (simp_all add: b0_def createBot_def buildBotInstance_def Let_def or_else_def falsy_def)
  from s0 f0 C5_start_keeps_first_start_time[of b0 1000]
  have s1: "status b1 = ''running''" and t1: "timeStarted (config b1) = Some 1000"
    by (simp_all add: b1_def)
  have n1: "name b1 \<noteq> []" and i1: "botId b1 = ''b1''"
    by (simp_all add: b1_def b0_def bot_start_def createBot_def buildBotInstance_def Let_def
          or_else_def falsy_def)
  from s1 t1 n1 i1 C5_start_keeps_first_start_time[of b1 2000 1000 3601000 3601001 3601000]
  show ?thesis using s0 unfolding b1_def b0_def by simp
qed

text \<open>
  Claim C6. Every bot that \<^verbatim>\<open>createBot\<close>, \<^verbatim>\<open>bot.start\<close> and \<^verbatim>\<open>bot.stop\<close> can
  produce, at whatever clock readings, satisfies: the status is \<^verbatim>\<open>running\<close> if and only if
  \<^verbatim>\<open>timeStarted\<close> is set and \<^verbatim>\<open>timeStopped\<close> is \<^verbatim>\<open>null\<close>.
\<close>

theorem C6_running_iff_started_and_not_stopped:
  "reachable b \<Longrightarrow>
     (status b = ''running'') = (timeStarted (config b) \<noteq> None \<and> timeStopped (config b) = None)"
proof (induction rule: reachable.induct)
  case (created bid timeNow buildTime nm strat smb cfg)
  show ?case by (rule createBot_inv)
next
  case (started b now)
  from started.IH show ?case by (rule bot_start_inv)
next
  case (stopped b now)
  from stopped.IH show ?case by (rule bot_stop_inv)
qed

theorem C6_running_iff_started_and_not_stopped_witness:
  "reachable (fst (bot_start 1700000000000
       (fst (createBot ''b1'' 1600000000000 1600000000001 ''n'' ''grid'' ''BTCUSDT'' ()))))
   \<and> status (fst (bot_start 1700000000000
       (fst (createBot ''b1'' 1600000000000 1600000000001 ''n'' ''grid'' ''BTCUSDT'' ())))) = ''running''
   \<and> timeStarted (config (fst (bot_start 1700000000000
       (fst (createBot ''b1'' 1600000000000 1600000000001 ''n'' ''grid'' ''BTCUSDT'' ())))))
       = Some 1700000000000"
proof -
  have r: "reachable (fst (bot_start 1700000000000
       (fst (createBot ''b1'' 1600000000000 1600000000001 ''n'' ''grid'' ''BTCUSDT'' ()))))"
    by (intro reachable.started reachable.created)
  have t: "timeStarted (config (fst (bot_start 1700000000000
       (fst (createBot ''b1'' 1600000000000 1600000000001 ''n'' ''grid'' ''BTCUSDT'' ())))))
       = Some 1700000000000"
    by (simp add: bot_start_def createBot_def buildBotInstance_def Let_def or_else_def falsy_def)
  have n: "timeStopped (config (fst (bot_start 1700000000000
       (fst (createBot ''b1'' 1600000000000 1600000000001 ''n'' ''grid'' ''BTCUSDT'' ())))))
       = None"
    by (simp add: bot_start_def createBot_def buildBotInstance_def Let_def or_else_def falsy_def)
  show ?thesis
    using r t n C6_running_iff_started_and_not_stopped[OF r] by simp
qed

section \<open>Properties of the stream client\<close>

lemma toLowerCase_BTCUSDT: "toLowerCase ''BTCUSDT'' = ''btcusdt''"
  by code_simp

text \<open>
  Claim C9. The client starts its user stream, subscribes to one market stream and is shut
  down by \<^verbatim>\<open>closeAll\<close>. At that point the flag \<^verbatim>\<open>closed\<close> is set, the keepalive interval
  is cancelled, both sockets are being closed and the table of market sockets is empty. When
  the \<^verbatim>\<open>close\<close> event of the user socket then arrives and its timeout expires,
  \<^verbatim>\<open>_recreateUserStream\<close> sees the flag: no listen key is requested and no socket is
  created. When the \<^verbatim>\<open>close\<close> event of the market socket arrives and its timeout expires,
  \<^verbatim>\<open>subscribeMarketSymbol\<close>, which does not read the flag, opens a new connection to the
  same stream and enters it in the table again.
\<close>

theorem C9_market_stream_reconnects_after_closeAll:
  "closed_ws (ws_run shutdownTrace newClient)
   \<and> intervals (ws_run shutdownTrace newClient) = [False]
   \<and> map sstate (socks (ws_run shutdownTrace newClient)) = [Closing, Terminated]
   \<and> marketWss (ws_run shutdownTrace newClient) = []
   \<and> keyRequests (ws_run (shutdownTrace @ [Socket_Close 0, Timeout_Expires]) newClient) = 1
   \<and> length (socks (ws_run (shutdownTrace @ [Socket_Close 0, Timeout_Expires]) newClient)) = 2
   \<and> socks (ws_run (shutdownTrace @ [Socket_Close 1, Timeout_Expires]) newClient) ! 2
        = \<lparr>url = ''wss://stream.binance.com:9443/ws/btcusdt@kline_1m'',
           kind = Market_Socket ''BTCUSDT'' ''kline_1m'', sstate = Connected\<rparr>
   \<and> marketWss (ws_run (shutdownTrace @ [Socket_Close 1, Timeout_Expires]) newClient)
        = [(''btcusdt@kline_1m'', 2)]"
  by (simp add: ws_run_def shutdownTrace_def newClient_def ws_step_def closeAll_def
        startUserStream_send_def startUserStream_answer_def openUserWS_def
        subscribeMarketSymbol_def onUserClose_def onMarketClose_def setSockState_def
        cancelInterval_def runCallback_def recreateUserStream_def toLowerCase_BTCUSDT
        Let_def)

section \<open>Properties of the persistence store\<close>

lemma parse_stringify:
  "json_safe v \<Longrightarrow> \<exists>t. stringify v = Some t \<and> parse t = v"
proof (induction v)
  case (JArr xs)
  have "map (\<lambda>x. parse (case stringify x of None \<Rightarrow> TNull | Some t \<Rightarrow> t)) xs = xs"
  proof (rule map_idI)
    fix x assume "x \<in> set xs"
    with JArr obtain t where "stringify x = Some t" "parse t = x"
      by (auto simp: list_all_iff)
    then show "parse (case stringify x of None \<Rightarrow> TNull | Some t \<Rightarrow> t) = x" by simp
  qed
  then show ?case by (simp add: comp_def)
next
  case (JObj kvs)
  have "\<forall>kv \<in> set kvs. \<exists>t. stringify (snd kv) = Some t \<and> parse t = snd kv"
    using JObj by (auto simp: list_all_iff snds.simps)
  then have "map (\<lambda>kt. (fst kt, parse (snd kt)))
          (concat (map
             (\<lambda>kv. case stringify (snd kv) of None \<Rightarrow> [] | Some t \<Rightarrow> [(fst kv, t)]) kvs))
        = kvs"
  proof (induction kvs)
    case Nil
    show ?case by simp
  next
    case (Cons kv kvs)
    then obtain t where "stringify (snd kv) = Some t" "parse t = snd kv" by auto
    with Cons show ?case by simp
  qed
  then show ?case by simp
qed simp_all

text \<open>
  Claim C7, as amended. For every bot id and every state \<open>S\<close> that JSON represents exactly
  (built from \<^verbatim>\<open>null\<close>, booleans, finite numbers, strings, arrays and objects, with nothing
  undefined inside) and that is not one of the values JavaScript takes for false, once
  \<^verbatim>\<open>saveBotState(id, S)\<close> has written its file, \<^verbatim>\<open>loadBotState(id)\<close> returns \<open>S\<close>.
\<close>

theorem C7_round_trip_of_json_values:
  "json_safe S \<Longrightarrow> js_truthy S \<Longrightarrow>
     loadBotState bid (saveBotState bid S now True dir) = S"
proof -
  assume safe: "json_safe S" and tr: "js_truthy S"
  from parse_stringify[OF safe] obtain t where t: "stringify S = Some t" "parse t = S" by blast
  show ?thesis
    using t tr by (simp add: saveBotState_def loadBotState_def)
qed

theorem C7_round_trip_of_json_values_witness:
  "json_safe runningSnapshot \<and> js_truthy runningSnapshot
   \<and> loadBotState ''b1'' (saveBotState ''b1'' runningSnapshot 1700000001000 True noFiles)
        = runningSnapshot"
proof -
  have s: "json_safe runningSnapshot" and t: "js_truthy runningSnapshot"
    by (simp_all add: runningSnapshot_def)
  show ?thesis
    using s t C7_round_trip_of_json_values[OF s t, of "''b1''" 1700000001000 noFiles]
    by simp
qed

text \<open>
  Claim C7 as stated, for every state value, fails: the state the grid runner saves when it
  is stopped before it obtained a price has \<^verbatim>\<open>initialStartPrice: undefined\<close>; the file has
  no such property, and the state read back differs from the one saved.
\<close>

theorem C7_round_trip_counterexample:
  "loadBotState ''b1'' (saveBotState ''b1'' stoppedGridState 1700000002000 True noFiles)
     \<noteq> stoppedGridState"
  by (simp add: saveBotState_def loadBotState_def stoppedGridState_def noFiles_def)

section \<open>Properties of the numeric helpers\<close>




lemma isDigit_not_e: "isDigit c \<Longrightarrow> c \<noteq> CHR ''e''"
  by (auto simp: isDigit_def)


















section \<open>Properties of the DCA-Buy runner\<close>














section \<open>Properties of the grid runner\<close>

lemma findIndex_Some:
  "findIndex P xs = Some i \<Longrightarrow> i < length xs \<and> P (xs ! i)"
  by (induction xs arbitrary: i) (auto split: if_splits)





lemma placeOrder_eq:
  "placeOrder cfg now rnd res retryNow retryRes c =
     (if notPositive (orderQuantity cfg (o_price c)) then (c, [])
      else
        (case res of
           Inr oid \<Rightarrow>
             (c\<lparr>o_orderId := Some oid,
                o_clientOrderId := Some (r_botTag cfg @ ''-'' @ digits10 (nat now) @ ''-''
                                          @ take 1 (o_side c) @ ''-'' @ rnd),
                o_status := ''open'', o_quantity := Some (orderQuantity cfg (o_price c))\<rparr>,
              [Place_Request (o_side c) (orderQuantity cfg (o_price c)) (o_price c)
                 (r_botTag cfg @ ''-'' @ digits10 (nat now) @ ''-'' @ take 1 (o_side c) @ ''-'' @ rnd),
               Bus_Event ''placed''])
         | Inl e \<Rightarrow>
             (fst (handlePlaceOrderError cfg retryNow retryRes e c (orderQuantity cfg (o_price c))),
              Place_Request (o_side c) (orderQuantity cfg (o_price c)) (o_price c)
                (r_botTag cfg @ ''-'' @ digits10 (nat now) @ ''-'' @ take 1 (o_side c) @ ''-'' @ rnd)
              # snd (handlePlaceOrderError cfg retryNow retryRes e c
                       (orderQuantity cfg (o_price c))))))"
  by (simp add: placeOrder_def orderQuantity_def Let_def case_prod_beta split: sum.splits)




lemma placeOrder_accepted:
  "\<not> notPositive (orderQuantity cfg (o_price c)) \<Longrightarrow> res = Inr oid \<Longrightarrow>
     o_orderId (fst (placeOrder cfg now rnd res retryNow retryRes c)) = Some oid
     \<and> o_status (fst (placeOrder cfg now rnd res retryNow retryRes c)) = ''open''
     \<and> (\<exists>cid. Place_Request (o_side c) (orderQuantity cfg (o_price c)) (o_price c) cid
               \<in> set (snd (placeOrder cfg now rnd res retryNow retryRes c)))"
  by (simp add: placeOrder_eq)






lemma grid_scenario:
  "gridOrders (fst afterBuy)
     = [openOrder 2 ''SELL'' 30010, openOrder 3 ''BUY'' 29980, openOrder 4 ''SELL'' 30020,
        \<lparr>o_price = 30000, o_side = ''SELL'', o_status = ''open'', o_orderId = Some 5,
         o_clientOrderId = Some ''1f0c9a2e-1001-S-aaaaa'', o_quantity = Some (Fin (1 / 100000))\<rparr>]"
  "unmatchedBuys (fst afterBuy) = [\<lparr>b_price = 29990, b_quantity = 1 / 100000\<rparr>]"
  "gridOrders (fst afterSell)
     = [openOrder 2 ''SELL'' 30010, openOrder 3 ''BUY'' 29980, openOrder 4 ''SELL'' 30020,
        \<lparr>o_price = 29990, o_side = ''BUY'', o_status = ''open'', o_orderId = Some 6,
         o_clientOrderId = Some ''1f0c9a2e-1002-B-bbbbb'', o_quantity = Some (Fin (1 / 100000))\<rparr>]"
  "unmatchedBuys (fst afterSell) = []"
  "botStats (fst afterSell)
     = \<lparr>completedRounds = 1, realizedPnl = (30000 - 29990) * (1 / 100000), lastDurationMs = 0\<rparr>"
  by code_simp+








end
